theory Spec2Isabelle
  imports Complex_Main "HOL-Library.Sublist" "HOL-Library.Log_Nat"
begin

section \<open>Track monitoring dashboard: data model\<close>

text \<open>
  The embedding follows \<^verbatim>\<open>src/main.py\<close>. A Python float is written as the real number
  it stands for. Comparisons and the format \<^verbatim>\<open>.1f\<close> work on that exact value, so the
  alerts are modelled on reals, with the float literals of \<^verbatim>\<open>THRESHOLDS\<close> as the doubles
  they denote. The health score is given twice: \<open>calculate_health_score\<close> reads the
  arithmetic of the source exactly, \<open>calculate_health_score_double\<close> rounds every
  operation to a double as the interpreter does. The two effects of a tick, the clock
  (\<^verbatim>\<open>datetime.now()\<close>) and the random source (\<^verbatim>\<open>random.uniform\<close>), are arguments of
  the functions that use them. Rendering calls of the dashboard library are left out.
\<close>

text \<open>The four keys shared by \<^verbatim>\<open>THRESHOLDS\<close>, the weights and a reading.\<close>

datatype metric = Acoustic | Vibration | Temperature | Humidity

text \<open>The key as the string the source uses (it is spliced into alert messages).\<close>

fun metric_name :: "metric \<Rightarrow> string" where
  "metric_name Acoustic = ''acoustic''"
| "metric_name Vibration = ''vibration''"
| "metric_name Temperature = ''temperature''"
| "metric_name Humidity = ''humidity''"

text \<open>A point in time, as returned by the clock.\<close>

type_synonym datetime = nat

record threshold =
  warning :: real
  danger :: real
  unit :: string
  range_min :: real
  range_max :: real

text \<open>
  \<^verbatim>\<open>THRESHOLDS\<close> (lines 41-46). The levels of the vibration are the float literals
  \<^verbatim>\<open>0.5\<close> and \<^verbatim>\<open>0.7\<close>, that is, the doubles nearest to them: \<open>1 / 2\<close> and
  \<open>3152519739159347 / 2 ^ 52\<close>, which is below \<open>7 / 10\<close>. All other numbers are integers.
  The degree sign of the temperature unit is the single code point U+00B0.
\<close>

fun THRESHOLDS :: "metric \<Rightarrow> threshold" where
  "THRESHOLDS Acoustic =
     \<lparr>warning = 65, danger = 75, unit = ''dB'', range_min = 40, range_max = 90\<rparr>"
| "THRESHOLDS Vibration =
     \<lparr>warning = 1 / 2, danger = 3152519739159347 / 4503599627370496, unit = ''g'',
      range_min = 0, range_max = 1\<rparr>"
| "THRESHOLDS Temperature =
     \<lparr>warning = 28, danger = 30, unit = [CHR 0xB0, CHR ''C''], range_min = 20, range_max = 35\<rparr>"
| "THRESHOLDS Humidity =
     \<lparr>warning = 65, danger = 75, unit = ''%'', range_min = 30, range_max = 90\<rparr>"

text \<open>The dictionary \<^verbatim>\<open>st.session_state.monitoring_data\<close> (lines 20-26): five lists.\<close>

record monitoring_data =
  acoustic :: "real list"
  vibration :: "real list"
  temperature :: "real list"
  humidity :: "real list"
  timestamps :: "datetime list"

text \<open>An entry of \<^verbatim>\<open>st.session_state.alerts\<close> (lines 115-119 and 121-125).\<close>

record alert =
  time :: datetime
  type :: string
  message :: string

text \<open>An entry of \<^verbatim>\<open>st.session_state.reports\<close> (lines 272-278).\<close>

record report =
  report_type :: string
  title :: string
  description :: string
  priority :: string
  report_time :: datetime

text \<open>The session state (lines 19-32).\<close>

record session_state =
  monitoring_data :: monitoring_data
  monitoring_active :: bool
  reports :: "report list"
  alerts :: "alert list"

definition initial_state :: session_state where
  "initial_state =
     \<lparr>monitoring_data =
        \<lparr>acoustic = [], vibration = [], temperature = [], humidity = [], timestamps = []\<rparr>,
      monitoring_active = False, reports = [], alerts = []\<rparr>"

text \<open>Reading and writing \<^verbatim>\<open>monitoring_data[metric]\<close> for one of the four metric keys.\<close>

fun md_get :: "metric \<Rightarrow> monitoring_data \<Rightarrow> real list" where
  "md_get Acoustic md = acoustic md"
| "md_get Vibration md = vibration md"
| "md_get Temperature md = temperature md"
| "md_get Humidity md = humidity md"

fun md_set :: "metric \<Rightarrow> real list \<Rightarrow> monitoring_data \<Rightarrow> monitoring_data" where
  "md_set Acoustic xs md = md\<lparr>acoustic := xs\<rparr>"
| "md_set Vibration xs md = md\<lparr>vibration := xs\<rparr>"
| "md_set Temperature xs md = md\<lparr>temperature := xs\<rparr>"
| "md_set Humidity xs md = md\<lparr>humidity := xs\<rparr>"

section \<open>Sampling\<close>

text \<open>
  \<^verbatim>\<open>generate_sensor_data\<close> (lines 72-78). The argument \<open>rnd\<close> is the random source:
  \<open>rnd m lo hi\<close> is the number that the call \<^verbatim>\<open>random.uniform(lo, hi)\<close> made for the key
  \<open>m\<close> returns. The result is the dictionary in insertion order, as Python iterates it.
\<close>

definition generate_sensor_data :: "(metric \<Rightarrow> real \<Rightarrow> real \<Rightarrow> real) \<Rightarrow> (metric \<times> real) list" where
  "generate_sensor_data rnd =
     [(Acoustic, rnd Acoustic (range_min (THRESHOLDS Acoustic)) (range_max (THRESHOLDS Acoustic))),
      (Vibration, rnd Vibration (range_min (THRESHOLDS Vibration)) (range_max (THRESHOLDS Vibration))),
      (Temperature, rnd Temperature (range_min (THRESHOLDS Temperature)) (range_max (THRESHOLDS Temperature))),
      (Humidity, rnd Humidity (range_min (THRESHOLDS Humidity)) (range_max (THRESHOLDS Humidity)))]"

text \<open>The number the random source hands out for the key \<open>m\<close> in one tick.\<close>

definition drawn :: "(metric \<Rightarrow> real \<Rightarrow> real \<Rightarrow> real) \<Rightarrow> metric \<Rightarrow> real" where
  "drawn rnd m = rnd m (range_min (THRESHOLDS m)) (range_max (THRESHOLDS m))"

text \<open>The reading \<^verbatim>\<open>{'acoustic': a, 'vibration': v, 'temperature': t, 'humidity': h}\<close>.\<close>

fun reading :: "real \<Rightarrow> real \<Rightarrow> real \<Rightarrow> real \<Rightarrow> metric \<Rightarrow> real" where
  "reading a v t h Acoustic = a"
| "reading a v t h Vibration = v"
| "reading a v t h Temperature = t"
| "reading a v t h Humidity = h"

text \<open>The random source whose draws are the values of the reading \<open>r\<close>.\<close>

definition returns :: "(metric \<Rightarrow> real) \<Rightarrow> metric \<Rightarrow> real \<Rightarrow> real \<Rightarrow> real" where
  "returns r = (\<lambda>m lo hi. r m)"

section \<open>Health score\<close>

text \<open>
  \<^verbatim>\<open>calculate_health_score\<close> (lines 80-89) in exact arithmetic; \<open>data\<close> is a dictionary
  with the four keys.
\<close>

fun weights :: "metric \<Rightarrow> real" where
  "weights Acoustic = 0.3"
| "weights Vibration = 0.3"
| "weights Temperature = 0.2"
| "weights Humidity = 0.2"

text \<open>The keys of \<^verbatim>\<open>weights\<close> in the order the generator expression visits them.\<close>

definition weights_keys :: "metric list" where
  "weights_keys = [Acoustic, Vibration, Temperature, Humidity]"

fun normalized_values :: "(metric \<Rightarrow> real) \<Rightarrow> metric \<Rightarrow> real" where
  "normalized_values data Acoustic =
     1 - (data Acoustic - range_min (THRESHOLDS Acoustic)) /
         (range_max (THRESHOLDS Acoustic) - range_min (THRESHOLDS Acoustic))"
| "normalized_values data Vibration = 1 - data Vibration"
| "normalized_values data Temperature = 1 - \<bar>data Temperature - 25\<bar> / 15"
| "normalized_values data Humidity = 1 - \<bar>data Humidity - 60\<bar> / 40"

text \<open>Python's \<^verbatim>\<open>sum\<close> adds the items from the left, starting at 0.\<close>

definition calculate_health_score :: "(metric \<Rightarrow> real) \<Rightarrow> real" where
  "calculate_health_score data =
     foldl (+) 0 (map (\<lambda>key. normalized_values data key * weights key) weights_keys) * 100"

text \<open>\<^verbatim>\<open>get_status_color\<close> (lines 91-96).\<close>

definition get_status_color :: "real \<Rightarrow> metric \<Rightarrow> string" where
  "get_status_color val m =
     (if val \<ge> danger (THRESHOLDS m) then ''danger''
      else if val \<ge> warning (THRESHOLDS m) then ''warning''
      else ''good'')"

text \<open>
  The health score that the Overview tab shows (lines 165-170 and 204-205). The tab waits
  while the acoustic list is empty; otherwise it takes the last item of each of the four
  lists, and \<^verbatim>\<open>[-1]\<close> raises on an empty list.
\<close>

datatype overview = Waiting | IndexError | Score real

definition latest_data :: "monitoring_data \<Rightarrow> metric \<Rightarrow> real" where
  "latest_data md m = last (md_get m md)"

definition overview_health_score :: "session_state \<Rightarrow> overview" where
  "overview_health_score s =
     (let md = monitoring_data s
      in if acoustic md = [] then Waiting
         else if vibration md = [] \<or> temperature md = [] \<or> humidity md = [] then IndexError
         else Score (calculate_health_score (latest_data md)))"

section \<open>Formatting a number with one decimal\<close>

text \<open>
  The format \<^verbatim>\<open>{value:.1f}\<close> prints the decimal with one fractional digit that is
  nearest to the exact value of the number, a tie going to the even digit, with a minus
  sign for a negative number (also one that rounds to zero).
\<close>

definition round_half_even :: "real \<Rightarrow> int" where
  "round_half_even x =
     (let f = \<lfloor>x\<rfloor>; d = x - of_int f
      in if d < 1 / 2 then f else if d > 1 / 2 then f + 1 else if even f then f else f + 1)"

fun str_nat :: "nat \<Rightarrow> string" where
  "str_nat n =
     (if n < 10 then [''0123456789'' ! n]
      else str_nat (n div 10) @ [''0123456789'' ! (n mod 10)])"

definition format_1f :: "real \<Rightarrow> string" where
  "format_1f x =
     (let n = nat (round_half_even (\<bar>x\<bar> * 10))
      in (if x < 0 then ''-'' else []) @ str_nat (n div 10) @ ''.'' @ str_nat (n mod 10))"

section \<open>Double arithmetic\<close>

text \<open>
  A Python float is an IEEE 754 double. A finite double is written as the real number it
  stands for; \<open>None\<close> stands for a result that is no finite double (an infinity or a NaN).
  An operation returns the double nearest to the exact result, a tie going to the even
  significand.
\<close>

definition pow2 :: "int \<Rightarrow> real" where
  "pow2 e = (if e \<ge> 0 then 2 ^ nat e else 1 / 2 ^ nat (- e))"

text \<open>
  The binary exponent \<open>e\<close> of a nonzero number: \<open>2 ^ e \<le> \<bar>x\<bar> < 2 ^ (e + 1)\<close>;
  \<open>bitlen n\<close> is the number of binary digits of \<open>n\<close>.
\<close>

definition exponent :: "real \<Rightarrow> int" where
  "exponent x =
     (if \<bar>x\<bar> \<ge> 1 then bitlen \<lfloor>\<bar>x\<bar>\<rfloor> - 1
      else (let k = bitlen \<lfloor>1 / \<bar>x\<bar>\<rfloor> - 1
            in if pow2 (- k) \<le> \<bar>x\<bar> then - k else - k - 1))"

text \<open>
  Rounding to a double: 53 significant bits, the last bit not below \<open>2 ^ (- 1074)\<close>
  (subnormal numbers), and no finite result from \<open>2 ^ 1024\<close> on.
\<close>

definition to_double :: "real \<Rightarrow> real option" where
  "to_double x =
     (if x = 0 then Some 0
      else (let p = max (exponent x - 52) (- 1074);
                y = of_int (round_half_even (x / pow2 p)) * pow2 p
            in if \<bar>y\<bar> \<ge> pow2 1024 then None else Some y))"

text \<open>The operations on floats that the health score uses.\<close>

definition fadd :: "real option \<Rightarrow> real option \<Rightarrow> real option" where
  "fadd a b = (case (a, b) of (Some x, Some y) \<Rightarrow> to_double (x + y) | _ \<Rightarrow> None)"

definition fsub :: "real option \<Rightarrow> real option \<Rightarrow> real option" where
  "fsub a b = (case (a, b) of (Some x, Some y) \<Rightarrow> to_double (x - y) | _ \<Rightarrow> None)"

definition fmul :: "real option \<Rightarrow> real option \<Rightarrow> real option" where
  "fmul a b = (case (a, b) of (Some x, Some y) \<Rightarrow> to_double (x * y) | _ \<Rightarrow> None)"

text \<open>The divisors of the health score are the constants 50, 15 and 40, never zero.\<close>

definition fdiv :: "real option \<Rightarrow> real option \<Rightarrow> real option" where
  "fdiv a b =
     (case (a, b) of (Some x, Some y) \<Rightarrow> if y = 0 then None else to_double (x / y) | _ \<Rightarrow> None)"

definition fabs :: "real option \<Rightarrow> real option" where
  "fabs a = map_option abs a"




section \<open>The tick: \<^verbatim>\<open>update_monitoring_data\<close>\<close>

definition max_points :: nat where
  "max_points = 100"

text \<open>The slice \<^verbatim>\<open>xs[-n:]\<close> for a positive \<open>n\<close>: the last \<open>n\<close> items, or all of a shorter list.\<close>

definition last_n :: "nat \<Rightarrow> 'a list \<Rightarrow> 'a list" where
  "last_n n xs = drop (length xs - n) xs"

text \<open>
  The body of the first loop (lines 103-106) for one key of \<^verbatim>\<open>new_data\<close>; the value
  \<^verbatim>\<open>new_data[metric]\<close> is the one stored under the key the loop is at.
\<close>

fun append_metric :: "monitoring_data \<Rightarrow> metric \<times> real \<Rightarrow> monitoring_data" where
  "append_metric md (m, val) =
     (let md1 = md_set m (md_get m md @ [val]) md
      in if length (md_get m md1) > max_points
         then md_set m (last_n max_points (md_get m md1)) md1
         else md1)"

text \<open>Lines 108-110.\<close>

definition append_timestamp :: "monitoring_data \<Rightarrow> datetime \<Rightarrow> monitoring_data" where
  "append_timestamp md current_time =
     (let md1 = md\<lparr>timestamps := timestamps md @ [current_time]\<rparr>
      in if length (timestamps md1) > max_points
         then md1\<lparr>timestamps := last_n max_points (timestamps md1)\<rparr>
         else md1)"

text \<open>
  The body of the alert loop (lines 113-125) for one item of \<^verbatim>\<open>new_data\<close>;
  \<^verbatim>\<open>insert(0, x)\<close> puts \<open>x\<close> at the front of the log.
\<close>

fun alert_step :: "datetime \<Rightarrow> alert list \<Rightarrow> metric \<times> real \<Rightarrow> alert list" where
  "alert_step current_time alog (m, val) =
     (if val \<ge> danger (THRESHOLDS m) then
        \<lparr>time = current_time, type = ''CRITICAL'',
         message = ''High '' @ metric_name m @ '' level detected: '' @ format_1f val @ '' '' @
                   unit (THRESHOLDS m)\<rparr> # alog
      else if val \<ge> warning (THRESHOLDS m) then
        \<lparr>time = current_time, type = ''WARNING'',
         message = ''Elevated '' @ metric_name m @ '' level: '' @ format_1f val @ '' '' @
                   unit (THRESHOLDS m)\<rparr> # alog
      else alog)"

text \<open>
  An alert record names its metric only inside the message (lines 118 and 124): the
  record is about the metric whose name follows \<^verbatim>\<open>High\<close> or \<^verbatim>\<open>Elevated\<close>.
\<close>

definition alert_about :: "metric \<Rightarrow> alert \<Rightarrow> bool" where
  "alert_about m a \<longleftrightarrow>
     prefix (''High '' @ metric_name m @ '' level detected: '') (message a) \<or>
     prefix (''Elevated '' @ metric_name m @ '' level: '') (message a)"

text \<open>
  \<^verbatim>\<open>update_monitoring_data\<close> (lines 98-125): \<open>now\<close> is what the clock returns and
  \<open>rnd\<close> is the random source.
\<close>

definition update_monitoring_data ::
  "datetime \<Rightarrow> (metric \<Rightarrow> real \<Rightarrow> real \<Rightarrow> real) \<Rightarrow> session_state \<Rightarrow> session_state" where
  "update_monitoring_data now rnd s =
     (let current_time = now;
          new_data = generate_sensor_data rnd;
          md1 = foldl append_metric (monitoring_data s) new_data;
          md2 = append_timestamp md1 current_time;
          alog = foldl (alert_step current_time) (alerts s) new_data
      in s\<lparr>monitoring_data := md2, alerts := alog\<rparr>)"

text \<open>
  Consecutive ticks of the monitoring loop (lines 302-305), one clock value and one
  random source for each, with no other action of the user in between.
\<close>

fun run_ticks ::
  "session_state \<Rightarrow> (datetime \<times> (metric \<Rightarrow> real \<Rightarrow> real \<Rightarrow> real)) list \<Rightarrow> session_state" where
  "run_ticks s [] = s"
| "run_ticks s ((now, rnd) # ticks) = run_ticks (update_monitoring_data now rnd s) ticks"

text \<open>The five lists of the history have one length, which is at most \<open>max_points\<close>.\<close>

definition history_inv :: "monitoring_data \<Rightarrow> bool" where
  "history_inv md \<longleftrightarrow>
     length (acoustic md) = length (timestamps md) \<and>
     length (vibration md) = length (timestamps md) \<and>
     length (temperature md) = length (timestamps md) \<and>
     length (humidity md) = length (timestamps md) \<and>
     length (timestamps md) \<le> max_points"

section \<open>The Clear Data button\<close>

text \<open>The keys of \<^verbatim>\<open>monitoring_data\<close> in insertion order (lines 20-26).\<close>

datatype data_key = Metric metric | Timestamps

definition monitoring_data_keys :: "data_key list" where
  "monitoring_data_keys =
     [Metric Acoustic, Metric Vibration, Metric Temperature, Metric Humidity, Timestamps]"

text \<open>The assignment \<^verbatim>\<open>monitoring_data[key] = []\<close>.\<close>

fun clear_key :: "monitoring_data \<Rightarrow> data_key \<Rightarrow> monitoring_data" where
  "clear_key md (Metric m) = md_set m [] md"
| "clear_key md Timestamps = md\<lparr>timestamps := []\<rparr>"

text \<open>The handler of the button (lines 146-149).\<close>

definition clear_data :: "session_state \<Rightarrow> session_state" where
  "clear_data s = s\<lparr>monitoring_data := foldl clear_key (monitoring_data s) monitoring_data_keys\<rparr>"

section \<open>Example inputs\<close>

text \<open>101 ticks, the tick \<open>i\<close> at time \<open>i\<close> drawing the number \<open>i\<close> for every metric.\<close>

definition example_ticks :: "(datetime \<times> (metric \<Rightarrow> real \<Rightarrow> real \<Rightarrow> real)) list" where
  "example_ticks = map (\<lambda>i. (i, returns (\<lambda>m. real i))) [0..<101]"

text \<open>A state whose five history lists hold 100 items each.\<close>

definition full_state :: session_state where
  "full_state = initial_state\<lparr>monitoring_data :=
     \<lparr>acoustic = replicate 100 50, vibration = replicate 100 0, temperature = replicate 100 25,
      humidity = replicate 100 60, timestamps = replicate 100 0\<rparr>\<rparr>"

section \<open>Auxiliary facts\<close>

lemma drawn_returns: "drawn (returns r) m = r m"
  by (simp add: drawn_def returns_def)

lemma generate_sensor_data_drawn:
  "generate_sensor_data rnd =
     [(Acoustic, drawn rnd Acoustic), (Vibration, drawn rnd Vibration),
      (Temperature, drawn rnd Temperature), (Humidity, drawn rnd Humidity)]"
  by (simp add: generate_sensor_data_def drawn_def)

lemma last_n_short: "length xs \<le> n \<Longrightarrow> last_n n xs = xs"
  by (simp add: last_n_def)

lemma length_last_n: "length (last_n n xs) = min n (length xs)"
  by (simp add: last_n_def)

lemma last_n_append_last_n: "last_n n (last_n n xs @ ys) = last_n n (xs @ ys)"
proof (cases "length xs \<le> n")
  case True
  then show ?thesis by (simp add: last_n_short)
next
  case False
  then have "length xs + length ys - (length xs - n + n) + (length xs - n) =
             length xs + length ys - n"
    by arith
  with False show ?thesis by (simp add: last_n_def)
qed

lemma md_get_set: "md_get m (md_set m' xs md) = (if m = m' then xs else md_get m md)"
  by (cases m; cases m') simp_all

lemma timestamps_md_set: "timestamps (md_set m xs md) = timestamps md"
  by (cases m) simp_all

lemma md_get_append_metric:
  "md_get m (append_metric md (m', v)) =
     (if m = m' then last_n max_points (md_get m md @ [v]) else md_get m md)"
  by (simp add: md_get_set Let_def last_n_short)

lemma timestamps_append_metric: "timestamps (append_metric md kv) = timestamps md"
  by (cases kv) (simp add: timestamps_md_set Let_def)

lemma md_get_append_timestamp: "md_get m (append_timestamp md t) = md_get m md"
  by (cases m) (simp_all add: append_timestamp_def Let_def)

lemma timestamps_append_timestamp:
  "timestamps (append_timestamp md t) = last_n max_points (timestamps md @ [t])"
  by (simp add: append_timestamp_def Let_def last_n_short)

lemma md_get_first_loop:
  "md_get m (foldl append_metric md (generate_sensor_data rnd)) =
     last_n max_points (md_get m md @ [drawn rnd m])"
  by (cases m) (simp_all add: generate_sensor_data_drawn md_get_append_metric del: append_metric.simps)

lemma timestamps_first_loop:
  "timestamps (foldl append_metric md kvs) = timestamps md"
  by (induction kvs arbitrary: md) (simp_all add: timestamps_append_metric)

lemma md_get_update:
  "md_get m (monitoring_data (update_monitoring_data now rnd s)) =
     last_n max_points (md_get m (monitoring_data s) @ [drawn rnd m])"
  by (simp add: update_monitoring_data_def Let_def md_get_append_timestamp md_get_first_loop)

lemma timestamps_update:
  "timestamps (monitoring_data (update_monitoring_data now rnd s)) =
     last_n max_points (timestamps (monitoring_data s) @ [now])"
  by (simp add: update_monitoring_data_def Let_def timestamps_append_timestamp timestamps_first_loop)

lemma alert_step_append: "alert_step now alog kv = alert_step now [] kv @ alog"
  by (cases kv) simp

lemma alerts_update:
  "alerts (update_monitoring_data now rnd s) =
     alert_step now [] (Humidity, drawn rnd Humidity) @
     alert_step now [] (Temperature, drawn rnd Temperature) @
     alert_step now [] (Vibration, drawn rnd Vibration) @
     alert_step now [] (Acoustic, drawn rnd Acoustic) @ alerts s"
  apply (simp add: update_monitoring_data_def Let_def generate_sensor_data_drawn del: alert_step.simps)
  apply (subst alert_step_append)
  apply (subst (2) alert_step_append)
  apply (subst (3) alert_step_append)
  apply (subst (4) alert_step_append)
  apply simp
  done

lemma reports_update: "reports (update_monitoring_data now rnd s) = reports s"
  by (simp add: update_monitoring_data_def Let_def)

lemma md_get_run_ticks:
  "md_get m (monitoring_data (run_ticks s ticks)) =
     last_n max_points (md_get m (monitoring_data s) @ map (\<lambda>(now, rnd). drawn rnd m) ticks)"
  if "length (md_get m (monitoring_data s)) \<le> max_points"
  using that
proof (induction ticks arbitrary: s)
  case Nil
  then show ?case by (simp add: last_n_short)
next
  case (Cons t ticks)
  obtain now rnd where t: "t = (now, rnd)" by (cases t)
  have "length (md_get m (monitoring_data (update_monitoring_data now rnd s))) \<le> max_points"
    by (simp add: md_get_update length_last_n)
  from Cons.IH [OF this] show ?case
    by (simp add: t md_get_update last_n_append_last_n)
qed

lemma timestamps_run_ticks:
  "timestamps (monitoring_data (run_ticks s ticks)) =
     last_n max_points (timestamps (monitoring_data s) @ map fst ticks)"
  if "length (timestamps (monitoring_data s)) \<le> max_points"
  using that
proof (induction ticks arbitrary: s)
  case Nil
  then show ?case by (simp add: last_n_short)
next
  case (Cons t ticks)
  obtain now rnd where t: "t = (now, rnd)" by (cases t)
  have "length (timestamps (monitoring_data (update_monitoring_data now rnd s))) \<le> max_points"
    by (simp add: timestamps_update length_last_n)
  from Cons.IH [OF this] show ?case
    by (simp add: t timestamps_update last_n_append_last_n)
qed

lemma last_last_n: "0 < n \<Longrightarrow> last (last_n n (xs @ [x])) = x"
  by (simp add: last_n_def)

lemma last_n_nonempty: "0 < n \<Longrightarrow> last_n n (xs @ [x]) \<noteq> []"
  by (simp add: last_n_def)

lemma latest_data_update:
  "latest_data (monitoring_data (update_monitoring_data now rnd s)) = drawn rnd"
  by (rule ext) (simp add: latest_data_def md_get_update last_last_n max_points_def)

lemma format_1f_80: "format_1f 80 = ''80.0''"
  by (simp add: format_1f_def round_half_even_def)

lemma last_n_Suc_length: "length xs = Suc n \<Longrightarrow> last_n n xs = tl xs"
  by (simp add: last_n_def drop_Suc)

lemma last_n_full_append: "length xs = n \<Longrightarrow> 0 < n \<Longrightarrow> last_n n (xs @ [x]) = tl xs @ [x]"
  by (cases xs) (simp_all add: last_n_def)

lemma alerts_run_ticks: "\<exists>batch. alerts (run_ticks s ticks) = batch @ alerts s"
proof (induction ticks arbitrary: s)
  case Nil
  show ?case by simp
next
  case (Cons t ticks)
  obtain now rnd where t: "t = (now, rnd)" by (cases t)
  from Cons.IH [of "update_monitoring_data now rnd s"] obtain batch
    where "alerts (run_ticks (update_monitoring_data now rnd s) ticks) =
           batch @ alerts (update_monitoring_data now rnd s)" ..
  then show ?case
    by (simp add: t alerts_update del: alert_step.simps)
qed

lemma length_alert_step: "length (alert_step now [] kv) \<le> 1"
  by (cases kv) simp

lemma filter_about_step:
  "filter (alert_about m) (alert_step now [] (k, x)) = (if k = m then alert_step now [] (k, x) else [])"
  by (cases m; cases k) (simp_all add: alert_about_def)

lemma filter_about_update:
  "filter (alert_about m) (alerts (update_monitoring_data now rnd s)) =
     alert_step now [] (m, drawn rnd m) @ filter (alert_about m) (alerts s)"
  by (cases m) (simp_all add: alerts_update filter_about_step del: alert_step.simps)

lemma format_1f_examples:
  "format_1f 75 = ''75.0''" "format_1f 65 = ''65.0''" "format_1f 31 = ''31.0''"
  "format_1f 76 = ''76.0''" "format_1f (3 / 4) = ''0.8''"
  by (simp_all add: format_1f_def round_half_even_def)

section \<open>Facts about double arithmetic\<close>



















lemmas double_eval =
  to_double_def exponent_def pow2_def round_half_even_def Let_def compute_bitlen
  fadd_def fsub_def fmul_def fdiv_def fabs_def

lemma double_literals:
  "to_double (3 / 10) = Some (5404319552844595 / 18014398509481984)"
  "to_double (2 / 10) = Some (3602879701896397 / 18014398509481984)"
  "to_double (7 / 10) = Some (danger (THRESHOLDS Vibration))"
  "to_double (1 / 2) = Some (warning (THRESHOLDS Vibration))"
  by (simp_all add: double_eval)


section \<open>The health score and the alerts of a tick\<close>






text \<open>
  Claim C3. For every metric and every value at or above the danger level of the metric
  (the level itself included), a tick adds exactly one alert about that metric to the
  log, and it is the \<^verbatim>\<open>CRITICAL\<close> one: the alerts about the metric after the tick are
  that record followed by those that were there before.
\<close>
theorem danger_alert_is_critical:
  assumes "drawn rnd m \<ge> danger (THRESHOLDS m)"
  shows "filter (alert_about m) (alerts (update_monitoring_data now rnd s)) =
           \<lparr>time = now, type = ''CRITICAL'',
            message = ''High '' @ metric_name m @ '' level detected: '' @
                      format_1f (drawn rnd m) @ '' '' @ unit (THRESHOLDS m)\<rparr> #
           filter (alert_about m) (alerts s)"
  using assms by (simp add: filter_about_update)

theorem danger_alert_is_critical_witness:
  "reading 50 (3152519739159347 / 4503599627370496) 25 60 Vibration \<ge> danger (THRESHOLDS Vibration) \<and>
   filter (alert_about Vibration)
     (alerts (update_monitoring_data 7
        (returns (reading 50 (3152519739159347 / 4503599627370496) 25 60)) initial_state)) =
     [\<lparr>time = 7, type = ''CRITICAL'', message = ''High vibration level detected: 0.7 g''\<rparr>]"
proof -
  let ?r = "reading 50 (3152519739159347 / 4503599627370496) 25 60"
  have h: "drawn (returns ?r) Vibration \<ge> danger (THRESHOLDS Vibration)"
    by (simp add: drawn_returns)
  have f: "format_1f (3152519739159347 / 4503599627370496) = ''0.7''"
    by (simp add: format_1f_def round_half_even_def)
  from danger_alert_is_critical [OF h, of 7 initial_state] show ?thesis
    by (simp add: drawn_returns f initial_state_def)
qed

text \<open>
  Claim C4. For every metric and every value: at or above the warning level (the level
  itself included) and below the danger level, a tick adds exactly one alert about that
  metric, the \<^verbatim>\<open>WARNING\<close> one; below the warning level it adds no alert about that
  metric.
\<close>
theorem warning_alert_or_none:
  "(warning (THRESHOLDS m) \<le> drawn rnd m \<and> drawn rnd m < danger (THRESHOLDS m) \<longrightarrow>
      filter (alert_about m) (alerts (update_monitoring_data now rnd s)) =
        \<lparr>time = now, type = ''WARNING'',
         message = ''Elevated '' @ metric_name m @ '' level: '' @ format_1f (drawn rnd m) @
                   '' '' @ unit (THRESHOLDS m)\<rparr> #
        filter (alert_about m) (alerts s)) \<and>
   (drawn rnd m < warning (THRESHOLDS m) \<longrightarrow>
      filter (alert_about m) (alerts (update_monitoring_data now rnd s)) =
        filter (alert_about m) (alerts s))"
proof -
  have "danger (THRESHOLDS m) > warning (THRESHOLDS m)"
    by (cases m) simp_all
  then show ?thesis
    by (simp add: filter_about_update)
qed

theorem warning_alert_or_none_witness:
  "warning (THRESHOLDS Vibration) \<le> reading 50 (1 / 2) 25 60 Vibration \<and>
   reading 50 (1 / 2) 25 60 Vibration < danger (THRESHOLDS Vibration) \<and>
   filter (alert_about Vibration)
     (alerts (update_monitoring_data 7 (returns (reading 50 (1 / 2) 25 60)) initial_state)) =
     [\<lparr>time = 7, type = ''WARNING'', message = ''Elevated vibration level: 0.5 g''\<rparr>] \<and>
   reading 64 0 25 60 Acoustic < warning (THRESHOLDS Acoustic) \<and>
   filter (alert_about Acoustic)
     (alerts (update_monitoring_data 7 (returns (reading 64 0 25 60)) initial_state)) = []"
proof -
  have f: "format_1f (1 / 2) = ''0.5''"
    by (simp add: format_1f_def round_half_even_def)
  from warning_alert_or_none [of Vibration "returns (reading 50 (1 / 2) 25 60)" 7 initial_state]
    warning_alert_or_none [of Acoustic "returns (reading 64 0 25 60)" 7 initial_state]
  show ?thesis
    by (simp add: drawn_returns f initial_state_def)
qed

text \<open>
  Claim C5. For every prior log and every reading, a tick handles the metrics in the
  order acoustic, vibration, temperature, humidity and puts each alert at the front of
  the log. So the alerts of the tick stand in reverse metric order (humidity first, the
  acoustic one deepest) in front of all alerts of earlier ticks; when all four values
  reach their danger levels these are the four \<^verbatim>\<open>CRITICAL\<close> records.
\<close>
theorem tick_alerts_order:
  "alerts (update_monitoring_data now (returns (reading a v t h)) s) =
     (if h \<ge> 75 then
        [\<lparr>time = now, type = ''CRITICAL'',
          message = ''High humidity level detected: '' @ format_1f h @ '' %''\<rparr>]
      else if h \<ge> 65 then
        [\<lparr>time = now, type = ''WARNING'',
          message = ''Elevated humidity level: '' @ format_1f h @ '' %''\<rparr>]
      else []) @
     (if t \<ge> 30 then
        [\<lparr>time = now, type = ''CRITICAL'',
          message = ''High temperature level detected: '' @ format_1f t @
                    [CHR '' '', CHR 0xB0, CHR ''C'']\<rparr>]
      else if t \<ge> 28 then
        [\<lparr>time = now, type = ''WARNING'',
          message = ''Elevated temperature level: '' @ format_1f t @
                    [CHR '' '', CHR 0xB0, CHR ''C'']\<rparr>]
      else []) @
     (if v \<ge> 3152519739159347 / 4503599627370496 then
        [\<lparr>time = now, type = ''CRITICAL'',
          message = ''High vibration level detected: '' @ format_1f v @ '' g''\<rparr>]
      else if v \<ge> 1 / 2 then
        [\<lparr>time = now, type = ''WARNING'',
          message = ''Elevated vibration level: '' @ format_1f v @ '' g''\<rparr>]
      else []) @
     (if a \<ge> 75 then
        [\<lparr>time = now, type = ''CRITICAL'',
          message = ''High acoustic level detected: '' @ format_1f a @ '' dB''\<rparr>]
      else if a \<ge> 65 then
        [\<lparr>time = now, type = ''WARNING'',
          message = ''Elevated acoustic level: '' @ format_1f a @ '' dB''\<rparr>]
      else []) @
     alerts s \<and>
   (a \<ge> 75 \<and> v \<ge> 3152519739159347 / 4503599627370496 \<and> t \<ge> 30 \<and> h \<ge> 75 \<longrightarrow>
    alerts (update_monitoring_data now (returns (reading a v t h)) s) =
      \<lparr>time = now, type = ''CRITICAL'',
       message = ''High humidity level detected: '' @ format_1f h @ '' %''\<rparr> #
      \<lparr>time = now, type = ''CRITICAL'',
       message = ''High temperature level detected: '' @ format_1f t @
                 [CHR '' '', CHR 0xB0, CHR ''C'']\<rparr> #
      \<lparr>time = now, type = ''CRITICAL'',
       message = ''High vibration level detected: '' @ format_1f v @ '' g''\<rparr> #
      \<lparr>time = now, type = ''CRITICAL'',
       message = ''High acoustic level detected: '' @ format_1f a @ '' dB''\<rparr> #
      alerts s)"
  by (simp add: alerts_update drawn_returns)

theorem tick_alerts_order_witness:
  "(80::real) \<ge> 75 \<and> (3 / 4 :: real) \<ge> 3152519739159347 / 4503599627370496 \<and>
   (31::real) \<ge> 30 \<and> (76::real) \<ge> 75 \<and>
   alerts (update_monitoring_data 7 (returns (reading 80 (3 / 4) 31 76))
      (initial_state\<lparr>alerts :=
         [\<lparr>time = 6, type = ''WARNING'', message = ''Elevated acoustic level: 65.0 dB''\<rparr>]\<rparr>)) =
     [\<lparr>time = 7, type = ''CRITICAL'', message = ''High humidity level detected: 76.0 %''\<rparr>,
      \<lparr>time = 7, type = ''CRITICAL'',
       message = ''High temperature level detected: 31.0 '' @ [CHR 0xB0, CHR ''C'']\<rparr>,
      \<lparr>time = 7, type = ''CRITICAL'', message = ''High vibration level detected: 0.8 g''\<rparr>,
      \<lparr>time = 7, type = ''CRITICAL'', message = ''High acoustic level detected: 80.0 dB''\<rparr>,
      \<lparr>time = 6, type = ''WARNING'', message = ''Elevated acoustic level: 65.0 dB''\<rparr>]"
  using tick_alerts_order [of 7 80 "3 / 4" 31 76
      "initial_state\<lparr>alerts :=
         [\<lparr>time = 6, type = ''WARNING'', message = ''Elevated acoustic level: 65.0 dB''\<rparr>]\<rparr>"]
  by (simp add: format_1f_examples format_1f_80)

text \<open>
  Claim C6. For the reading acoustic 80, vibration 0.2, temperature 25, humidity 60 a tick
  adds exactly one alert, the \<^verbatim>\<open>CRITICAL\<close> one with the message
  \<^verbatim>\<open>High acoustic level detected: 80.0 dB\<close>, and the health score is exactly 70, also as
  the Overview tab computes it after the tick.
\<close>
theorem end_to_end_example:
  "alerts (update_monitoring_data now (returns (reading 80 0.2 25 60)) s) =
     \<lparr>time = now, type = ''CRITICAL'', message = ''High acoustic level detected: 80.0 dB''\<rparr> #
     alerts s \<and>
   calculate_health_score (reading 80 0.2 25 60) = 70 \<and>
   overview_health_score (update_monitoring_data now (returns (reading 80 0.2 25 60)) s) = Score 70"
proof -
  let ?r = "reading 80 0.2 25 60"
  let ?s' = "update_monitoring_data now (returns ?r) s"
  have score: "calculate_health_score ?r = 70"
    by (simp add: calculate_health_score_def weights_keys_def)
  have "alerts ?s' =
     \<lparr>time = now, type = ''CRITICAL'', message = ''High acoustic level detected: 80.0 dB''\<rparr> #
     alerts s"
    by (simp add: alerts_update drawn_returns format_1f_80)
  moreover have "latest_data (monitoring_data ?s') = ?r"
    by (simp add: latest_data_update) (rule ext, simp add: drawn_returns)
  moreover have "md_get m (monitoring_data ?s') \<noteq> []" for m
    by (simp add: md_get_update last_n_nonempty max_points_def)
  from this [of Acoustic] this [of Vibration] this [of Temperature] this [of Humidity]
  have "acoustic (monitoring_data ?s') \<noteq> [] \<and> vibration (monitoring_data ?s') \<noteq> [] \<and>
        temperature (monitoring_data ?s') \<noteq> [] \<and> humidity (monitoring_data ?s') \<noteq> []"
    by simp
  ultimately show ?thesis
    using score by (simp add: overview_health_score_def Let_def)
qed

section \<open>The history and the frame of a tick\<close>

text \<open>
  Claim C7. Starting from an empty history, after 101 consecutive ticks the list of a
  metric holds exactly 100 values: all appended values but the first, oldest first, the
  newest last; the first one is gone from the list unless a later tick drew the same
  number. The list of timestamps behaves the same way. An append to a list that holds 100
  values drops exactly its oldest item.
\<close>
theorem history_eviction:
  assumes "length ticks = 101"
    and "md_get m (monitoring_data s) = []" and "timestamps (monitoring_data s) = []"
  shows "md_get m (monitoring_data (run_ticks s ticks)) =
           tl (map (\<lambda>(now, rnd). drawn rnd m) ticks) \<and>
         length (md_get m (monitoring_data (run_ticks s ticks))) = 100 \<and>
         last (md_get m (monitoring_data (run_ticks s ticks))) = drawn (snd (last ticks)) m \<and>
         timestamps (monitoring_data (run_ticks s ticks)) = tl (map fst ticks) \<and>
         (drawn (snd (hd ticks)) m \<notin> set (map (\<lambda>(now, rnd). drawn rnd m) (tl ticks)) \<longrightarrow>
          drawn (snd (hd ticks)) m \<notin> set (md_get m (monitoring_data (run_ticks s ticks)))) \<and>
         (length (md_get m (monitoring_data s')) = 100 \<longrightarrow>
          md_get m (monitoring_data (update_monitoring_data now' rnd' s')) =
            tl (md_get m (monitoring_data s')) @ [drawn rnd' m])"
proof -
  let ?vals = "map (\<lambda>(now, rnd). drawn rnd m) ticks"
  have len: "length ?vals = Suc max_points" "length (map fst ticks) = Suc max_points"
    using assms(1) by (simp_all add: max_points_def)
  have hist: "md_get m (monitoring_data (run_ticks s ticks)) = tl ?vals"
    using md_get_run_ticks [of m s ticks] assms(2) len(1) by (simp add: last_n_Suc_length)
  have times: "timestamps (monitoring_data (run_ticks s ticks)) = tl (map fst ticks)"
    using timestamps_run_ticks [of s ticks] assms(3) len(2) by (simp add: last_n_Suc_length)
  from assms(1) obtain t ts where ticks: "ticks = t # ts" and ts: "length ts = 100"
    by (cases ticks) simp_all
  from ts have "ts \<noteq> []" by auto
  then have lst: "last (tl ?vals) = drawn (snd (last ticks)) m"
    by (simp add: ticks last_map case_prod_beta)
  have absent: "tl ?vals = map (\<lambda>(now, rnd). drawn rnd m) (tl ticks)"
    by (simp add: ticks)
  have step: "length (md_get m (monitoring_data s')) = 100 \<longrightarrow>
          md_get m (monitoring_data (update_monitoring_data now' rnd' s')) =
            tl (md_get m (monitoring_data s')) @ [drawn rnd' m]"
    by (simp add: md_get_update last_n_full_append max_points_def)
  show ?thesis
    unfolding hist times using lst absent step ts by (simp add: ticks)
qed

theorem history_eviction_witness:
  "length example_ticks = 101 \<and> md_get Acoustic (monitoring_data initial_state) = [] \<and>
   timestamps (monitoring_data initial_state) = [] \<and>
   drawn (snd (hd example_ticks)) Acoustic \<notin>
     set (map (\<lambda>(now, rnd). drawn rnd Acoustic) (tl example_ticks)) \<and>
   length (md_get Acoustic (monitoring_data full_state)) = 100 \<and>
   md_get Acoustic (monitoring_data (run_ticks initial_state example_ticks)) = map real [1..<101] \<and>
   drawn (snd (hd example_ticks)) Acoustic \<notin>
     set (md_get Acoustic (monitoring_data (run_ticks initial_state example_ticks))) \<and>
   md_get Acoustic (monitoring_data (update_monitoring_data 7 (returns (reading 80 0.2 25 60)) full_state)) =
     replicate 99 50 @ [80]"
proof -
  have ex: "example_ticks = (0, returns (\<lambda>m. 0)) # map (\<lambda>i. (i, returns (\<lambda>m. real i))) [1..<101]"
    unfolding example_ticks_def by (subst upt_conv_Cons) simp_all
  have h1: "length example_ticks = 101" by (simp add: example_ticks_def)
  have h2: "md_get Acoustic (monitoring_data initial_state) = []"
    and h3: "timestamps (monitoring_data initial_state) = []"
    by (simp_all add: initial_state_def)
  have vals: "map (\<lambda>(now, rnd). drawn rnd Acoustic) (tl example_ticks) = map real [1..<101]"
    by (simp add: ex drawn_returns comp_def del: upt_rec_numeral)
  have h4: "drawn (snd (hd example_ticks)) Acoustic \<notin>
     set (map (\<lambda>(now, rnd). drawn rnd Acoustic) (tl example_ticks))"
    unfolding vals by (auto simp add: ex drawn_returns simp del: upt_rec_numeral)
  have h5: "length (md_get Acoustic (monitoring_data full_state)) = 100"
    by (simp add: full_state_def)
  have tl100: "tl (replicate 100 (50::real)) = replicate 99 50"
    by simp
  have vals': "tl (map (\<lambda>(now, rnd). drawn rnd Acoustic) example_ticks) = map real [1..<101]"
    using vals by (simp add: map_tl)
  from history_eviction [OF h1 h2 h3, of full_state 7 "returns (reading 80 0.2 25 60)"] h4 h5
  show ?thesis
    using h1 h2 h3 vals vals'
    by (simp add: drawn_returns full_state_def tl100 del: upt_rec_numeral)
qed

text \<open>
  Claim C8. A tick only puts new records in front of the alert log: the log before the
  tick is a suffix of the log after it, so every earlier record is kept as it was and in
  the same order. A tick adds at most four records, and the same holds for any number
  of ticks.
\<close>
theorem alerts_only_prepended:
  "(\<exists>batch. alerts (update_monitoring_data now rnd s) = batch @ alerts s \<and> length batch \<le> 4) \<and>
   (\<exists>batch. alerts (run_ticks s ticks) = batch @ alerts s)"
proof -
  let ?batch = "alert_step now [] (Humidity, drawn rnd Humidity) @
     alert_step now [] (Temperature, drawn rnd Temperature) @
     alert_step now [] (Vibration, drawn rnd Vibration) @
     alert_step now [] (Acoustic, drawn rnd Acoustic)"
  have "alerts (update_monitoring_data now rnd s) = ?batch @ alerts s"
    by (simp add: alerts_update del: alert_step.simps)
  moreover have "length ?batch \<le> 4"
    using length_alert_step [of now "(Humidity, drawn rnd Humidity)"]
      length_alert_step [of now "(Temperature, drawn rnd Temperature)"]
      length_alert_step [of now "(Vibration, drawn rnd Vibration)"]
      length_alert_step [of now "(Acoustic, drawn rnd Acoustic)"]
    by (simp del: alert_step.simps)
  ultimately show ?thesis
    using alerts_run_ticks [of s ticks] by blast
qed

text \<open>
  Claim C9. If the five history lists have one length, at most 100, then they still do
  after a tick: each list gains one item and is cut to its last 100 items.
\<close>
theorem tick_preserves_history_inv:
  assumes "history_inv (monitoring_data s)"
  shows "history_inv (monitoring_data (update_monitoring_data now rnd s)) \<and>
         md_get m (monitoring_data (update_monitoring_data now rnd s)) =
           last_n 100 (md_get m (monitoring_data s) @ [drawn rnd m]) \<and>
         timestamps (monitoring_data (update_monitoring_data now rnd s)) =
           last_n 100 (timestamps (monitoring_data s) @ [now])"
proof -
  let ?md = "monitoring_data s" and ?md' = "monitoring_data (update_monitoring_data now rnd s)"
  have len: "length (md_get k ?md') = min max_points (Suc (length (md_get k ?md)))" for k
    by (simp add: md_get_update length_last_n)
  have lent: "length (timestamps ?md') = min max_points (Suc (length (timestamps ?md)))"
    by (simp add: timestamps_update length_last_n)
  from len [of Acoustic] len [of Vibration] len [of Temperature] len [of Humidity] lent assms
  have "history_inv ?md'"
    by (simp add: history_inv_def)
  then show ?thesis
    by (simp add: md_get_update timestamps_update max_points_def)
qed

theorem tick_preserves_history_inv_witness:
  "history_inv (monitoring_data full_state) \<and>
   history_inv (monitoring_data
     (update_monitoring_data 7 (returns (reading 80 (1 / 4) 26 61)) full_state)) \<and>
   monitoring_data (update_monitoring_data 7 (returns (reading 80 (1 / 4) 26 61)) full_state) =
     \<lparr>acoustic = replicate 99 50 @ [80], vibration = replicate 99 0 @ [1 / 4],
      temperature = replicate 99 25 @ [26], humidity = replicate 99 60 @ [61],
      timestamps = replicate 99 0 @ [7]\<rparr>"
proof -
  let ?s' = "update_monitoring_data 7 (returns (reading 80 (1 / 4) 26 61)) full_state"
  have h: "history_inv (monitoring_data full_state)"
    by (simp add: history_inv_def full_state_def max_points_def)
  have cut: "last_n 100 (replicate 100 x @ [y]) = replicate 99 x @ [y]" for x y :: 'a
    by (simp add: last_n_full_append)
  note t = tick_preserves_history_inv [OF h, of 7 "returns (reading 80 (1 / 4) 26 61)"]
  from t [of Acoustic] t [of Vibration] t [of Temperature] t [of Humidity]
  have "history_inv (monitoring_data ?s') \<and>
        acoustic (monitoring_data ?s') = replicate 99 50 @ [80] \<and>
        vibration (monitoring_data ?s') = replicate 99 0 @ [1 / 4] \<and>
        temperature (monitoring_data ?s') = replicate 99 25 @ [26] \<and>
        humidity (monitoring_data ?s') = replicate 99 60 @ [61] \<and>
        timestamps (monitoring_data ?s') = replicate 99 0 @ [7]"
    by (simp add: drawn_returns full_state_def cut)
  with h show ?thesis
    by (cases "monitoring_data ?s'") simp
qed

text \<open>
  Claim C10. Clear Data sets each of the five history lists to the empty list and leaves
  the alert log, the reports and the monitoring flag as they were.
\<close>
theorem clear_data_frame:
  "monitoring_data (clear_data s) =
     \<lparr>acoustic = [], vibration = [], temperature = [], humidity = [], timestamps = []\<rparr> \<and>
   alerts (clear_data s) = alerts s \<and> reports (clear_data s) = reports s \<and>
   monitoring_active (clear_data s) = monitoring_active s"
  by (simp add: clear_data_def monitoring_data_keys_def)

end
